theory Spec2Isabelle
  imports Complex_Main
begin

section \<open>Text: Python \<open>str\<close> and the Unicode tables of the interpreter\<close>

text \<open>
  A Python \<^verbatim>\<open>str\<close> is a sequence of Unicode code points; a statement text is modelled
  as the list of its code points. \<open>ascii s\<close> is the text of an ASCII literal of the
  source.
\<close>

type_synonym str = "nat list"

definition ascii :: "string \<Rightarrow> str" where
  "ascii s = map of_char s"

text \<open>
  \<^verbatim>\<open>str.strip\<close>, \<^verbatim>\<open>str.upper\<close>, \<^verbatim>\<open>str.lower\<close> and the pattern classes \<^verbatim>\<open>\s\<close> and \<^verbatim>\<open>\b\<close>
  read the Unicode character database of the interpreter. The server does not fix that
  database, so the model takes what it reads from it as parameters:
  \<open>is_space\<close> is \<^verbatim>\<open>str.isspace\<close> on one code point (the whitespace of \<^verbatim>\<open>str.strip()\<close> and
  of \<^verbatim>\<open>\s\<close>), \<open>is_word\<close> is the word class \<^verbatim>\<open>\w\<close> of a \<^verbatim>\<open>str\<close> pattern, \<open>upper\<close> and
  \<open>lower\<close> are \<^verbatim>\<open>str.upper\<close> and \<^verbatim>\<open>str.lower\<close> on a whole text (they may change its
  length).
\<close>

record unicode =
  is_space :: "nat \<Rightarrow> bool"
  is_word :: "nat \<Rightarrow> bool"
  upper :: "str \<Rightarrow> str"
  lower :: "str \<Rightarrow> str"

definition strip :: "unicode \<Rightarrow> str \<Rightarrow> str" where
  "strip U s = rev (dropWhile (is_space U) (rev (dropWhile (is_space U) s)))"

fun startswith :: "'a list \<Rightarrow> 'a list \<Rightarrow> bool" where
  "startswith s [] = True"
| "startswith [] (p # ps) = False"
| "startswith (c # cs) (p # ps) = (c = p \<and> startswith cs ps)"

section \<open>Regular expressions: the fragment of \<open>re.search\<close> the validator uses\<close>

text \<open>
  The deny-list patterns are built from literal ASCII characters, \<^verbatim>\<open>.\<close> (any code point
  but the line feed), \<^verbatim>\<open>\s\<close>, the repetitions \<^verbatim>\<open>*\<close> and \<^verbatim>\<open>+\<close> of one of these, and the
  word-boundary assertion \<^verbatim>\<open>\b\<close>. A pattern is the list of its items in order. The
  patterns are compiled without flags: matching is case-sensitive.
\<close>

datatype cls = Lit char | AnyChar | SpaceCls

datatype item = One cls | Star cls | Plus cls | WordBoundary

type_synonym pattern = "item list"

fun cls_matches :: "unicode \<Rightarrow> cls \<Rightarrow> nat \<Rightarrow> bool" where
  "cls_matches U (Lit a) c = (c = of_char a)"
| "cls_matches U AnyChar c = (c \<noteq> 10)"
| "cls_matches U SpaceCls c = is_space U c"

text \<open>
  \<^verbatim>\<open>\b\<close> holds between the code point before the position (\<open>None\<close> at the start of the
  text) and the one after it (none at the end) when exactly one of them is a word
  character.
\<close>

fun at_boundary :: "unicode \<Rightarrow> nat option \<Rightarrow> str \<Rightarrow> bool" where
  "at_boundary U None [] = False"
| "at_boundary U None (x # xs) = is_word U x"
| "at_boundary U (Some p) [] = is_word U p"
| "at_boundary U (Some p) (x # xs) = (is_word U p \<noteq> is_word U x)"

text \<open>
  \<open>match_here U pat prev s\<close>: the pattern matches a prefix of \<open>s\<close>, where \<open>prev\<close> is the
  code point just before \<open>s\<close> in the whole text. Repetitions try the longer match first,
  as the backtracking matcher does.
\<close>

fun match_here :: "unicode \<Rightarrow> pattern \<Rightarrow> nat option \<Rightarrow> str \<Rightarrow> bool" where
  "match_here U [] prev s = True"
| "match_here U (One c # r) prev [] = False"
| "match_here U (One c # r) prev (x # xs) = (cls_matches U c x \<and> match_here U r (Some x) xs)"
| "match_here U (Star c # r) prev [] = match_here U r prev []"
| "match_here U (Star c # r) prev (x # xs) =
     ((cls_matches U c x \<and> match_here U (Star c # r) (Some x) xs)
      \<or> match_here U r prev (x # xs))"
| "match_here U (Plus c # r) prev [] = False"
| "match_here U (Plus c # r) prev (x # xs) =
     (cls_matches U c x \<and> match_here U (Star c # r) (Some x) xs)"
| "match_here U (WordBoundary # r) prev s = (at_boundary U prev s \<and> match_here U r prev s)"

text \<open>\<open>search_from U pat prev s\<close>: the pattern matches at some position of \<open>s\<close>.\<close>

fun search_from :: "unicode \<Rightarrow> pattern \<Rightarrow> nat option \<Rightarrow> str \<Rightarrow> bool" where
  "search_from U pat prev [] = match_here U pat prev []"
| "search_from U pat prev (x # xs) =
     (match_here U pat prev (x # xs) \<or> search_from U pat (Some x) xs)"

definition re_search :: "unicode \<Rightarrow> pattern \<Rightarrow> str \<Rightarrow> bool" where
  "re_search U pat s = search_from U pat None s"

definition lits :: "string \<Rightarrow> pattern" where
  "lits s = map (\<lambda>c. One (Lit c)) s"

text \<open>The source text of a pattern, as the warning in the log prints it.\<close>

fun cls_text :: "cls \<Rightarrow> string" where
  "cls_text (Lit a) = [a]"
| "cls_text AnyChar = ''.''"
| "cls_text SpaceCls = [CHR 0x5C, CHR ''s'']"

fun item_text :: "item \<Rightarrow> string" where
  "item_text (One c) = cls_text c"
| "item_text (Star c) = cls_text c @ ''*''"
| "item_text (Plus c) = cls_text c @ ''+''"
| "item_text WordBoundary = [CHR 0x5C, CHR ''b'']"

definition pattern_text :: "pattern \<Rightarrow> string" where
  "pattern_text pat = concat (map item_text pat)"

section \<open>Effects\<close>

text \<open>
  Every operation threads the trace of the effects performed so far: log records, and
  the calls made on the database driver and the file system.
\<close>

datatype level = INFO | WARNING | ERROR

datatype event =
    Logged level string
  | Connected string
  | Executed str
  | Committed
  | Closed
  | MadeDirs string
  | FileWritten string string

type_synonym trace = "event list"

definition log :: "level \<Rightarrow> string \<Rightarrow> trace \<Rightarrow> trace" where
  "log lvl msg tr = tr @ [Logged lvl msg]"

section \<open>The validator\<close>

definition dangerous_patterns :: "pattern list" where
  "dangerous_patterns =
    [ [WordBoundary] @ lits ''DROP'' @ [Plus SpaceCls] @ lits ''DATABASE'' @ [WordBoundary],
      [WordBoundary] @ lits ''DROP'' @ [Plus SpaceCls] @ lits ''TABLE'' @ [WordBoundary],
      [WordBoundary] @ lits ''TRUNCATE'' @ [WordBoundary],
      [WordBoundary] @ lits ''DELETE'' @ [Plus SpaceCls] @ lits ''FROM'' @ [WordBoundary]
        @ [Star AnyChar] @ lits ''WHERE'' @ [Plus SpaceCls] @ lits ''1'' @ [Star SpaceCls]
        @ lits ''='' @ [Star SpaceCls] @ lits ''1'',
      [WordBoundary] @ lits ''UPDATE'' @ [WordBoundary]
        @ [Star AnyChar] @ lits ''WHERE'' @ [Plus SpaceCls] @ lits ''1'' @ [Star SpaceCls]
        @ lits ''='' @ [Star SpaceCls] @ lits ''1'',
      lits '';'' @ [Star SpaceCls] @ lits ''DROP'' @ [WordBoundary],
      lits ''--'',
      lits ''xp_cmdshell'',
      lits ''sp_executesql'' ]"

text \<open>The loop over the patterns: the first one that matches logs a warning and rejects.\<close>

fun check_patterns :: "unicode \<Rightarrow> pattern list \<Rightarrow> str \<Rightarrow> trace \<Rightarrow> bool \<times> trace" where
  "check_patterns U [] sql_upper tr = (True, tr)"
| "check_patterns U (pat # pats) sql_upper tr =
     (if re_search U pat sql_upper
      then (False, log WARNING (''Blocked potentially dangerous SQL pattern: '' @ pattern_text pat) tr)
      else check_patterns U pats sql_upper tr)"

definition validate_sql_query :: "unicode \<Rightarrow> str \<Rightarrow> trace \<Rightarrow> bool \<times> trace" where
  "validate_sql_query U sql tr =
     check_patterns U dangerous_patterns (strip U (upper U sql)) tr"

section \<open>Configuration\<close>

text \<open>
  The class \<^verbatim>\<open>Config\<close>, read from the environment when the process starts. The fields
  \<^verbatim>\<open>MCP_HOST\<close> and \<^verbatim>\<open>MCP_PORT\<close> belong to the transport and are not used by the
  operations below.
\<close>

record config =
  DRIVER :: string
  SERVER :: string
  DATABASE :: string
  TRUSTED_CONNECTION :: str
  USERNAME :: "string option"
  PASSWORD :: "string option"
  MAX_ROWS :: int
  QUERY_TIMEOUT :: int

text \<open>
  Exceptions, each with the text \<^verbatim>\<open>str(e)\<close> gives: the driver's \<^verbatim>\<open>pyodbc.Error\<close>,
  \<^verbatim>\<open>IOError\<close>, and \<^verbatim>\<open>ValueError\<close> (an \<^verbatim>\<open>Exception\<close> that is neither of the two).
\<close>

datatype exn = PyodbcError string | IOError string | ValueError string

fun exn_str :: "exn \<Rightarrow> string" where
  "exn_str (PyodbcError m) = m"
| "exn_str (IOError m) = m"
| "exn_str (ValueError m) = m"

text \<open>Truth value of an optional string: \<^verbatim>\<open>None\<close> and the empty string are false.\<close>

fun truthy_str :: "string option \<Rightarrow> bool" where
  "truthy_str None = False"
| "truthy_str (Some s) = (s \<noteq> [])"

fun join :: "string \<Rightarrow> string list \<Rightarrow> string" where
  "join sep [] = []"
| "join sep [x] = x"
| "join sep (x # y # ys) = x @ sep @ join sep (y # ys)"

definition get_connection_string :: "unicode \<Rightarrow> config \<Rightarrow> exn + string" where
  "get_connection_string U c =
     (let parts = [''DRIVER={'' @ DRIVER c @ ''}'',
                   ''SERVER='' @ SERVER c,
                   ''DATABASE='' @ DATABASE c]
      in if lower U (TRUSTED_CONNECTION c) = ascii ''yes''
         then Inr (join '';'' (parts @ [''Trusted_Connection=yes'']))
         else if truthy_str (USERNAME c) \<and> truthy_str (PASSWORD c)
         then Inr (join '';'' (parts @ [''UID='' @ the (USERNAME c), ''PWD='' @ the (PASSWORD c)]))
         else Inl (ValueError ''Either use Trusted_Connection or provide USERNAME and PASSWORD''))"

section \<open>The world outside the server\<close>

text \<open>
  Values as \<^verbatim>\<open>json.dumps\<close> receives them. An envelope is the dictionary an operation
  passes to \<^verbatim>\<open>json.dumps\<close>, in the order of its keys; the operations of the model
  return the dictionary, of which the source returns the JSON text.
\<close>

datatype json = JNull | JBool bool | JInt int | JNum rat | JStr string | JArr "json list"

type_synonym envelope = "(string \<times> json) list"

text \<open>
  What \<^verbatim>\<open>cursor.execute(sql)\<close> and the fetch after it do: raise a \<^verbatim>\<open>pyodbc.Error\<close>, or
  complete with \<^verbatim>\<open>cursor.description\<close> (the column names, or \<^verbatim>\<open>None\<close>), the rows the
  cursor yields and \<^verbatim>\<open>cursor.rowcount\<close>.
\<close>

datatype exec_result =
    ExecError string
  | ExecDone "string list option" "json list list" int

record env =
  tables :: unicode
  cfg :: config
  now :: string
  connect_error :: "string option"
  run :: "str \<Rightarrow> exec_result"
  commit_error :: "string option"
  path_dirname :: "string \<Rightarrow> string"
  path_exists :: "string \<Rightarrow> bool"
  makedirs_error :: "string \<Rightarrow> string option"
  open_error :: "string \<Rightarrow> string option"
  csv_row :: "json list \<Rightarrow> string"

text \<open>
  \<open>tables\<close> is the Unicode character database of the interpreter;
  \<open>now\<close> is \<^verbatim>\<open>datetime.now().isoformat()\<close>; \<open>connect_error\<close> is the message of the
  \<^verbatim>\<open>pyodbc.Error\<close> that \<^verbatim>\<open>pyodbc.connect\<close> raises, if it does, and \<open>commit_error\<close> that of
  \<^verbatim>\<open>conn.commit()\<close>; \<open>path_dirname\<close> and \<open>path_exists\<close> are \<^verbatim>\<open>os.path.dirname\<close> and
  \<^verbatim>\<open>os.path.exists\<close>; \<open>makedirs_error\<close> and \<open>open_error\<close> give the message of the error
  that \<^verbatim>\<open>os.makedirs\<close> and \<^verbatim>\<open>open(file_path, 'w')\<close> raise on a path, if they do;
  \<open>csv_row\<close> is the line \<^verbatim>\<open>csv.writer.writerow\<close> writes for a row.
\<close>

type_synonym 'a result = "(exn + 'a) \<times> trace"

section \<open>The connection provider\<close>

text \<open>
  The context manager \<^verbatim>\<open>get_db_connection\<close> around the body of a \<^verbatim>\<open>with\<close> block. The
  connection string is built before \<^verbatim>\<open>pyodbc.connect\<close> is called; a \<^verbatim>\<open>pyodbc.Error\<close>
  raised by the connect or by the body is logged and raised again; the connection, once
  open, is closed on every exit.
\<close>

definition get_db_connection :: "env \<Rightarrow> (trace \<Rightarrow> 'a result) \<Rightarrow> trace \<Rightarrow> 'a result" where
  "get_db_connection e body tr =
     (case get_connection_string (tables e) (cfg e) of
        Inl x \<Rightarrow> (Inl x, tr)
      | Inr cs \<Rightarrow>
          (case connect_error e of
             Some m \<Rightarrow> (Inl (PyodbcError m), log ERROR (''Database connection error: '' @ m) tr)
           | None \<Rightarrow>
               (let tr1 = log INFO ''Database connection established'' (tr @ [Connected cs]);
                    (r, tr2) = body tr1;
                    tr3 = (case r of
                             Inl (PyodbcError m) \<Rightarrow> log ERROR (''Database connection error: '' @ m) tr2
                           | _ \<Rightarrow> tr2)
                in (r, log INFO ''Database connection closed'' (tr3 @ [Closed])))))"

section \<open>The result shaper\<close>

definition digits :: string where
  "digits = ''0123456789''"

function str_nat :: "nat \<Rightarrow> string" where
  "str_nat n = (if n < 10 then [digits ! n] else str_nat (n div 10) @ [digits ! (n mod 10)])"
  by pat_completeness auto
termination
  by (relation "measure id") auto

declare str_nat.simps [simp del]

definition str_int :: "int \<Rightarrow> string" where
  "str_int i = (if i < 0 then ''-'' @ str_nat (nat (- i)) else str_nat (nat i))"

text \<open>The slice \<^verbatim>\<open>rows[:k]\<close>: a negative \<open>k\<close> counts from the end.\<close>

definition slice_to :: "'a list \<Rightarrow> int \<Rightarrow> 'a list" where
  "slice_to xs k = (if 0 \<le> k then take (nat k) xs else take (length xs - nat (- k)) xs)"

text \<open>\<^verbatim>\<open>max_rows or Config.MAX_ROWS\<close>: \<^verbatim>\<open>None\<close> and \<open>0\<close> are false.\<close>

fun or_default :: "int option \<Rightarrow> int \<Rightarrow> int" where
  "or_default None d = d"
| "or_default (Some m) d = (if m = 0 then d else m)"

definition format_query_result :: "env \<Rightarrow> string list \<Rightarrow> json list list \<Rightarrow> int option \<Rightarrow> envelope" where
  "format_query_result e columns rows max_rows =
     (let max_rows' = or_default max_rows (MAX_ROWS (cfg e))
      in [(''columns'', JArr (map JStr columns)),
          (''rows'', JArr (map JArr (slice_to rows max_rows'))),
          (''row_count'', JInt (int (length rows))),
          (''truncated'', JBool (int (length rows) > max_rows')),
          (''timestamp'', JStr (now e))])"

definition error_envelope :: "env \<Rightarrow> string \<Rightarrow> envelope" where
  "error_envelope e msg = [(''error'', JStr msg), (''timestamp'', JStr (now e))]"

section \<open>Error normalisation\<close>

text \<open>
  The \<^verbatim>\<open>except\<close> clauses that close the \<^verbatim>\<open>try\<close> block of an operation: each turns the
  exception it catches into an error envelope and logs the message.
\<close>

fun except_pyodbc_Error :: "env \<Rightarrow> envelope result \<Rightarrow> envelope result" where
  "except_pyodbc_Error e (Inl (PyodbcError m), tr) =
     (Inr (error_envelope e (''Database error: '' @ m)), log ERROR (''Database error: '' @ m) tr)"
| "except_pyodbc_Error e r = r"

fun except_IOError :: "env \<Rightarrow> envelope result \<Rightarrow> envelope result" where
  "except_IOError e (Inl (IOError m), tr) =
     (Inr (error_envelope e (''File I/O error: '' @ m)), log ERROR (''File I/O error: '' @ m) tr)"
| "except_IOError e r = r"

fun except_Exception :: "env \<Rightarrow> envelope result \<Rightarrow> envelope result" where
  "except_Exception e (Inl x, tr) =
     (Inr (error_envelope e (''Unexpected error: '' @ exn_str x)),
      log ERROR (''Unexpected error: '' @ exn_str x) tr)"
| "except_Exception e r = r"

section \<open>Query tools\<close>

definition validation_failed :: string where
  "validation_failed = ''Query validation failed. Potentially unsafe SQL detected.''"

text \<open>
  The two entry-point gates. \<open>is_select\<close> is \<^verbatim>\<open>sql.strip().upper().startswith('SELECT')\<close>,
  the test of \<^verbatim>\<open>query_sql\<close>, \<^verbatim>\<open>export_to_csv\<close> and \<^verbatim>\<open>query_to_csv\<close>;
  \<open>is_allowed_command\<close> is the test of \<^verbatim>\<open>execute_dml\<close>,
  \<^verbatim>\<open>any(sql_upper.startswith(cmd) for cmd in allowed_commands)\<close> with
  \<^verbatim>\<open>sql_upper = sql.strip().upper()\<close>.
\<close>

definition is_select :: "unicode \<Rightarrow> str \<Rightarrow> bool" where
  "is_select U sql = startswith (upper U (strip U sql)) (ascii ''SELECT'')"

definition allowed_commands :: "string list" where
  "allowed_commands = [''INSERT'', ''UPDATE'', ''DELETE'']"

definition is_allowed_command :: "unicode \<Rightarrow> str \<Rightarrow> bool" where
  "is_allowed_command U sql =
     list_ex (startswith (upper U (strip U sql))) (map ascii allowed_commands)"

subsection \<open>\<open>query_sql\<close>\<close>

definition query_sql_try :: "env \<Rightarrow> str \<Rightarrow> int option \<Rightarrow> trace \<Rightarrow> envelope result" where
  "query_sql_try e sql max_rows tr =
     (let (ok, tr1) = validate_sql_query (tables e) sql tr
      in if \<not> ok then (Inr (error_envelope e validation_failed), tr1)
         else if \<not> is_select (tables e) sql
         then (Inr (error_envelope e
                 ''Only SELECT queries are allowed. Use execute_dml for INSERT/UPDATE/DELETE.''), tr1)
         else get_db_connection e
                (\<lambda>t. case run e sql of
                        ExecError m \<Rightarrow> (Inl (PyodbcError m), t @ [Executed sql])
                      | ExecDone None rows rc \<Rightarrow>
                          (Inr [(''message'', JStr ''Query executed successfully with no results'')],
                           t @ [Executed sql])
                      | ExecDone (Some columns) rows rc \<Rightarrow>
                          (Inr (format_query_result e columns rows max_rows),
                           log INFO (''Query executed successfully. Returned ''
                                     @ str_int (int (length rows)) @ '' rows'')
                             (t @ [Executed sql])))
                tr1)"

definition query_sql :: "env \<Rightarrow> str \<Rightarrow> int option \<Rightarrow> trace \<Rightarrow> envelope result" where
  "query_sql e sql max_rows tr =
     except_Exception e (except_pyodbc_Error e (query_sql_try e sql max_rows tr))"

subsection \<open>\<open>execute_dml\<close>\<close>

definition execute_dml_try :: "env \<Rightarrow> str \<Rightarrow> trace \<Rightarrow> envelope result" where
  "execute_dml_try e sql tr =
     (let (ok, tr1) = validate_sql_query (tables e) sql tr
      in if \<not> ok then (Inr (error_envelope e validation_failed), tr1)
         else if \<not> is_allowed_command (tables e) sql
         then (Inr (error_envelope e
                 (''Only '' @ join '', '' allowed_commands @ '' statements are allowed.'')), tr1)
         else get_db_connection e
                (\<lambda>t. case run e sql of
                        ExecError m \<Rightarrow> (Inl (PyodbcError m), t @ [Executed sql])
                      | ExecDone description rows rows_affected \<Rightarrow>
                          (case commit_error e of
                             Some m \<Rightarrow> (Inl (PyodbcError m), t @ [Executed sql])
                           | None \<Rightarrow>
                               (Inr [(''success'', JBool True),
                                     (''rows_affected'', JInt rows_affected),
                                     (''timestamp'', JStr (now e))],
                                log INFO (''DML executed successfully. '' @ str_int rows_affected
                                          @ '' rows affected'')
                                  (t @ [Executed sql, Committed]))))
                tr1)"

text \<open>The only \<^verbatim>\<open>except\<close> clause of \<^verbatim>\<open>execute_dml\<close> is the one for \<^verbatim>\<open>pyodbc.Error\<close>.\<close>

definition execute_dml :: "env \<Rightarrow> str \<Rightarrow> trace \<Rightarrow> envelope result" where
  "execute_dml e sql tr = except_pyodbc_Error e (execute_dml_try e sql tr)"

subsection \<open>\<open>export_to_csv\<close>\<close>

text \<open>
  \<^verbatim>\<open>cursor.fetchmany(n)\<close> on a cursor that has the rows \<open>rows\<close> left, for \<open>0 \<le> n\<close>: at
  most the first \<open>n\<close> of them. (What the driver does with a negative size is not fixed
  by the source; the theorems on capped fetches assume \<open>0 \<le> n\<close>.)
\<close>

definition fetchmany :: "int \<Rightarrow> 'a list \<Rightarrow> 'a list" where
  "fetchmany n rows = take (nat n) rows"

text \<open>Truth value of an optional integer: \<^verbatim>\<open>None\<close> and \<open>0\<close> are false.\<close>

fun truthy_int :: "int option \<Rightarrow> bool" where
  "truthy_int None = False"
| "truthy_int (Some m) = (m \<noteq> 0)"

text \<open>
  \<^verbatim>\<open>round(file_size / 1024 / 1024, 2)\<close>: the size in units of \<open>2\<^sup>2\<^sup>0\<close> bytes, rounded to
  hundredths, a tie going to the even hundredth.
\<close>

definition file_size_mb :: "nat \<Rightarrow> rat" where
  "file_size_mb n =
     (let h = int n * 100; q = h div 1048576; r = h mod 1048576
      in of_int (if 2 * r > 1048576 \<or> (2 * r = 1048576 \<and> odd q) then q + 1 else q) / 100)"

text \<open>The text of the file: the header line, then one line for each row written.\<close>

definition csv_text :: "env \<Rightarrow> string list \<Rightarrow> json list list \<Rightarrow> string" where
  "csv_text e columns rows = csv_row e (map JStr columns) @ concat (map (csv_row e) rows)"

definition export_to_csv_with :: "env \<Rightarrow> str \<Rightarrow> string \<Rightarrow> int option \<Rightarrow> trace \<Rightarrow> envelope result" where
  "export_to_csv_with e sql file_path max_rows tr =
     get_db_connection e
       (\<lambda>t. case run e sql of
               ExecError m \<Rightarrow> (Inl (PyodbcError m), t @ [Executed sql])
             | ExecDone None rows rc \<Rightarrow>
                 (Inr (error_envelope e ''Query returned no results to export''), t @ [Executed sql])
             | ExecDone (Some columns) rows rc \<Rightarrow>
                 (case open_error e file_path of
                    Some m \<Rightarrow> (Inl (IOError m), t @ [Executed sql])
                  | None \<Rightarrow>
                      (let written = (if truthy_int max_rows then fetchmany (the max_rows) rows
                                      else rows);
                           rows_written = length written;
                           content = csv_text e columns written;
                           file_size = length content
                       in (Inr [(''success'', JBool True),
                                (''file_path'', JStr file_path),
                                (''rows_exported'', JInt (int rows_written)),
                                (''file_size_bytes'', JInt (int file_size)),
                                (''file_size_mb'', JNum (file_size_mb file_size)),
                                (''columns'', JArr (map JStr columns)),
                                (''timestamp'', JStr (now e))],
                           log INFO (''CSV export successful: '' @ str_int (int rows_written)
                                     @ '' rows written to '' @ file_path)
                             (t @ [Executed sql, FileWritten file_path content])))))
       tr"

definition export_to_csv_try :: "env \<Rightarrow> str \<Rightarrow> string \<Rightarrow> int option \<Rightarrow> trace \<Rightarrow> envelope result" where
  "export_to_csv_try e sql file_path max_rows tr =
     (let (ok, tr1) = validate_sql_query (tables e) sql tr
      in if \<not> ok then (Inr (error_envelope e validation_failed), tr1)
         else if \<not> is_select (tables e) sql
         then (Inr (error_envelope e ''Only SELECT queries are allowed for CSV export.''), tr1)
         else (let export_dir = path_dirname e file_path
               in if export_dir \<noteq> [] \<and> \<not> path_exists e export_dir
                  then (case makedirs_error e export_dir of
                          Some m \<Rightarrow> (Inr (error_envelope e (''Invalid file path: '' @ m)), tr1)
                        | None \<Rightarrow>
                            export_to_csv_with e sql file_path max_rows (tr1 @ [MadeDirs export_dir]))
                  else export_to_csv_with e sql file_path max_rows tr1))"

definition export_to_csv :: "env \<Rightarrow> str \<Rightarrow> string \<Rightarrow> int option \<Rightarrow> trace \<Rightarrow> envelope result" where
  "export_to_csv e sql file_path max_rows tr =
     except_Exception e (except_IOError e (except_pyodbc_Error e
       (export_to_csv_try e sql file_path max_rows tr)))"

subsection \<open>\<open>query_to_csv\<close>\<close>

text \<open>
  The row cap of \<^verbatim>\<open>query_to_csv\<close> is an integer here: the value the caller passes, or
  \<open>query_to_csv_default_max_rows\<close> when the argument is left out.
\<close>

definition query_to_csv_default_max_rows :: int where
  "query_to_csv_default_max_rows = 10000"

definition query_to_csv_try :: "env \<Rightarrow> str \<Rightarrow> int \<Rightarrow> trace \<Rightarrow> envelope result" where
  "query_to_csv_try e sql max_rows tr =
     (let (ok, tr1) = validate_sql_query (tables e) sql tr
      in if \<not> ok then (Inr (error_envelope e validation_failed), tr1)
         else if \<not> is_select (tables e) sql
         then (Inr (error_envelope e ''Only SELECT queries are allowed for CSV download.''), tr1)
         else get_db_connection e
                (\<lambda>t. case run e sql of
                        ExecError m \<Rightarrow> (Inl (PyodbcError m), t @ [Executed sql])
                      | ExecDone None rows rc \<Rightarrow>
                          (Inr (error_envelope e ''Query returned no results to convert to CSV''),
                           t @ [Executed sql])
                      | ExecDone (Some columns) rows rc \<Rightarrow>
                          (let written = fetchmany max_rows rows;
                               rows_written = length written;
                               csv_content = csv_text e columns written
                           in (Inr [(''success'', JBool True),
                                    (''csv_content'', JStr csv_content),
                                    (''rows'', JInt (int rows_written)),
                                    (''columns'', JInt (int (length columns))),
                                    (''truncated'', JBool (int rows_written \<ge> max_rows)),
                                    (''timestamp'', JStr (now e)),
                                    (''instructions'',
                                     JStr ''Claude Desktop can save this as a downloadable CSV file'')],
                               log INFO (''CSV generation successful: '' @ str_int (int rows_written)
                                         @ '' rows'')
                                 (t @ [Executed sql]))))
                tr1)"

definition query_to_csv :: "env \<Rightarrow> str \<Rightarrow> int \<Rightarrow> trace \<Rightarrow> envelope result" where
  "query_to_csv e sql max_rows tr =
     except_Exception e (except_pyodbc_Error e (query_to_csv_try e sql max_rows tr))"

section \<open>Reading envelopes and traces\<close>

text \<open>
  \<open>field r k\<close>: the operation returned an envelope and this is its value under the key
  \<open>k\<close>; \<open>None\<close> when the key is absent or an exception left the operation.
\<close>

definition field :: "envelope result \<Rightarrow> string \<Rightarrow> json option" where
  "field r k = (case fst r of Inr v \<Rightarrow> map_of v k | Inl x \<Rightarrow> None)"

definition returns_error :: "envelope result \<Rightarrow> bool" where
  "returns_error r = (field r ''error'' \<noteq> None)"

text \<open>
  The two equations of the specification's invariant on a response, for a cap \<open>c\<close>:
  \<^verbatim>\<open>rows.length == min(row_count, c)\<close> and \<^verbatim>\<open>truncated == (row_count > c)\<close>.
\<close>

definition rows_capped :: "envelope result \<Rightarrow> int \<Rightarrow> bool" where
  "rows_capped r c =
     (case (field r ''rows'', field r ''row_count'') of
        (Some (JArr rs), Some (JInt n)) \<Rightarrow> int (length rs) = min n c
      | _ \<Rightarrow> False)"

definition truncation_flag_ok :: "envelope result \<Rightarrow> int \<Rightarrow> bool" where
  "truncation_flag_ok r c =
     (case (field r ''truncated'', field r ''row_count'') of
        (Some (JBool t), Some (JInt n)) \<Rightarrow> t = (n > c)
      | _ \<Rightarrow> False)"

text \<open>The calls made on the database driver.\<close>

fun is_db_call :: "event \<Rightarrow> bool" where
  "is_db_call (Connected cs) = True"
| "is_db_call (Executed sql) = True"
| "is_db_call Committed = True"
| "is_db_call Closed = True"
| "is_db_call ev = False"

definition db_calls :: "trace \<Rightarrow> trace" where
  "db_calls tr = filter is_db_call tr"

text \<open>
  The first keyword token of a statement, as the specification's classifier reads it:
  the leading run of word characters of the trimmed text, in upper case.
\<close>

definition first_keyword :: "unicode \<Rightarrow> str \<Rightarrow> str" where
  "first_keyword U sql = takeWhile (is_word U) (upper U (strip U sql))"

section \<open>A sample world\<close>

text \<open>
  The tables on ASCII: what the Unicode character database says of the code points
  below 128 (whitespace is the tab, line feed, vertical tab, form feed, carriage return,
  the separators 28 to 31 and the space; a word character is a letter, a digit or the
  underscore; the case mappings exchange \<^verbatim>\<open>a\<close>..\<^verbatim>\<open>z\<close> and \<^verbatim>\<open>A\<close>..\<^verbatim>\<open>Z\<close>). The sample
  worlds use them, on ASCII texts only; a code point from 128 on is left as it is, and
  is neither whitespace nor a word character there.
\<close>

definition ascii_is_space :: "nat \<Rightarrow> bool" where
  "ascii_is_space n = List.member [9, 10, 11, 12, 13, 28, 29, 30, 31, 32] n"

definition ascii_is_word :: "nat \<Rightarrow> bool" where
  "ascii_is_word n =
     ((48 \<le> n \<and> n \<le> 57) \<or> (65 \<le> n \<and> n \<le> 90) \<or> n = 95 \<or> (97 \<le> n \<and> n \<le> 122))"

definition ascii_upper :: "str \<Rightarrow> str" where
  "ascii_upper t = map (\<lambda>n. if 97 \<le> n \<and> n \<le> 122 then n - 32 else n) t"

definition ascii_lower :: "str \<Rightarrow> str" where
  "ascii_lower t = map (\<lambda>n. if 65 \<le> n \<and> n \<le> 90 then n + 32 else n) t"

definition ascii_unicode :: unicode where
  "ascii_unicode =
     \<lparr> is_space = ascii_is_space, is_word = ascii_is_word,
       upper = ascii_upper, lower = ascii_lower \<rparr>"

text \<open>
  \<open>agrees_on_ascii U\<close>: the tables \<open>U\<close> say of the code points below 128, and of the
  texts made of them, what the tables above say. The database of the interpreter does.
\<close>

definition is_ascii :: "str \<Rightarrow> bool" where
  "is_ascii t = list_all (\<lambda>n. n < 128) t"

definition prev_ascii :: "nat option \<Rightarrow> bool" where
  "prev_ascii prev = (case prev of None \<Rightarrow> True | Some p \<Rightarrow> p < 128)"

definition agrees_on_ascii :: "unicode \<Rightarrow> bool" where
  "agrees_on_ascii U \<longleftrightarrow>
     (\<forall>n < 128. is_space U n = ascii_is_space n \<and> is_word U n = ascii_is_word n)
     \<and> (\<forall>t. is_ascii t \<longrightarrow> upper U t = ascii_upper t \<and> lower U t = ascii_lower t)"

definition sample_config :: config where
  "sample_config =
     \<lparr> DRIVER = ''ODBC Driver 17 for SQL Server'', SERVER = ''localhost'',
       DATABASE = ''ServiceNow'', TRUSTED_CONNECTION = ascii ''yes'',
       USERNAME = None, PASSWORD = None, MAX_ROWS = 1000, QUERY_TIMEOUT = 30 \<rparr>"

definition sample_select :: str where
  "sample_select = ascii ''SELECT name FROM dbo.Employees''"

definition sample_connection_string :: string where
  "sample_connection_string =
     ''DRIVER={ODBC Driver 17 for SQL Server};SERVER=localhost;DATABASE=ServiceNow;Trusted_Connection=yes''"

definition sample_rows :: "json list list" where
  "sample_rows = [[JStr ''Ann''], [JStr ''Bob''], [JStr ''Cy'']]"

text \<open>
  A database that answers every statement with the three rows of one column \<open>name\<close>,
  and a file system on which every call succeeds.
\<close>

fun cell_text :: "json \<Rightarrow> string" where
  "cell_text (JStr s) = s"
| "cell_text (JInt i) = str_int i"
| "cell_text v = []"

definition sample_env :: env where
  "sample_env =
     \<lparr> tables = ascii_unicode, cfg = sample_config, now = ''2024-01-01T00:00:00'',
       connect_error = None,
       run = (\<lambda>sql. ExecDone (Some [''name'']) sample_rows (- 1)),
       commit_error = None,
       path_dirname = (\<lambda>p. []),
       path_exists = (\<lambda>p. True),
       makedirs_error = (\<lambda>p. None),
       open_error = (\<lambda>p. None),
       csv_row = (\<lambda>r. join '','' (map cell_text r) @ [CHR 0x0D, CHR 0x0A]) \<rparr>"

text \<open>A database that answers every statement with one affected row and no result set.\<close>

definition sample_dml_env :: env where
  "sample_dml_env = sample_env \<lparr> run := (\<lambda>sql. ExecDone None [] 1) \<rparr>"

text \<open>The sample world with integrated authentication off and no credentials configured.\<close>

definition no_credentials_env :: env where
  "no_credentials_env = sample_env \<lparr> cfg := sample_config \<lparr> TRUSTED_CONNECTION := ascii ''no'' \<rparr> \<rparr>"

section \<open>Lemmas on the validator and the operations\<close>

lemma check_patterns_fst:
  "fst (check_patterns U ps s tr) = (\<not> list_ex (\<lambda>p. re_search U p s) ps)"
  by (induction ps) auto

lemma check_patterns_accept:
  "fst (check_patterns U ps s tr) \<Longrightarrow> check_patterns U ps s tr = (True, tr)"
  by (induction ps) (auto split: if_splits)

lemma check_patterns_db_calls:
  "db_calls (snd (check_patterns U ps s tr)) = db_calls tr"
  by (induction ps) (auto simp: db_calls_def log_def)

lemma validate_accept:
  "fst (validate_sql_query U sql tr) \<Longrightarrow> validate_sql_query U sql tr = (True, tr)"
  unfolding validate_sql_query_def by (rule check_patterns_accept)

lemma validate_db_calls:
  "db_calls (snd (validate_sql_query U sql tr)) = db_calls tr"
  unfolding validate_sql_query_def by (rule check_patterns_db_calls)

lemma validate_verdict:
  "fst (validate_sql_query U sql tr) =
     (\<not> list_ex (\<lambda>p. re_search U p (strip U (upper U sql))) dangerous_patterns)"
  unfolding validate_sql_query_def by (rule check_patterns_fst)

lemma validate_reject:
  "\<not> fst (validate_sql_query U sql tr) \<Longrightarrow>
   validate_sql_query U sql tr = (False, snd (validate_sql_query U sql tr))"
  by (cases "validate_sql_query U sql tr") simp

lemma query_sql_rejected:
  assumes "\<not> fst (validate_sql_query (tables e) sql tr)"
  shows "query_sql e sql mr tr =
           (Inr (error_envelope e validation_failed), snd (validate_sql_query (tables e) sql tr))"
proof (cases "validate_sql_query (tables e) sql tr")
  case (Pair ok tr1)
  with assms show ?thesis
    by (simp add: query_sql_def query_sql_try_def error_envelope_def)
qed

lemma query_sql_not_select:
  assumes "fst (validate_sql_query (tables e) sql tr)"
    and "\<not> is_select (tables e) sql"
  shows "query_sql e sql mr tr =
           (Inr (error_envelope e
              ''Only SELECT queries are allowed. Use execute_dml for INSERT/UPDATE/DELETE.''), tr)"
  using validate_accept [OF assms(1)] assms(2)
  by (simp add: query_sql_def query_sql_try_def)

lemma query_sql_success:
  assumes "fst (validate_sql_query (tables e) sql tr)"
    and "is_select (tables e) sql"
    and "get_connection_string (tables e) (cfg e) = Inr cs" and "connect_error e = None"
    and "run e sql = ExecDone (Some columns) rows rc"
  shows "query_sql e sql mr tr =
           (Inr (format_query_result e columns rows mr),
            tr @ [Connected cs, Logged INFO ''Database connection established'', Executed sql,
                  Logged INFO (''Query executed successfully. Returned ''
                               @ str_int (int (length rows)) @ '' rows''),
                  Closed, Logged INFO ''Database connection closed''])"
  using validate_accept [OF assms(1)] assms(2-)
  by (simp add: query_sql_def query_sql_try_def get_db_connection_def log_def)


lemma execute_dml_rejected:
  assumes "\<not> fst (validate_sql_query (tables e) sql tr)"
  shows "execute_dml e sql tr =
           (Inr (error_envelope e validation_failed), snd (validate_sql_query (tables e) sql tr))"
proof (cases "validate_sql_query (tables e) sql tr")
  case (Pair ok tr1)
  with assms show ?thesis
    by (simp add: execute_dml_def execute_dml_try_def error_envelope_def)
qed

lemma execute_dml_not_allowed:
  assumes "fst (validate_sql_query (tables e) sql tr)"
    and "\<not> is_allowed_command (tables e) sql"
  shows "execute_dml e sql tr =
           (Inr (error_envelope e
              (''Only '' @ join '', '' allowed_commands @ '' statements are allowed.'')), tr)"
  using validate_accept [OF assms(1)] assms(2)
  by (simp add: execute_dml_def execute_dml_try_def error_envelope_def)

lemma execute_dml_success:
  assumes "fst (validate_sql_query (tables e) sql tr)"
    and "is_allowed_command (tables e) sql"
    and "get_connection_string (tables e) (cfg e) = Inr cs" and "connect_error e = None"
    and "run e sql = ExecDone description rows n" and "commit_error e = None"
  shows "execute_dml e sql tr =
           (Inr [(''success'', JBool True), (''rows_affected'', JInt n),
                 (''timestamp'', JStr (now e))],
            tr @ [Connected cs, Logged INFO ''Database connection established'', Executed sql,
                  Committed,
                  Logged INFO (''DML executed successfully. '' @ str_int n @ '' rows affected''),
                  Closed, Logged INFO ''Database connection closed''])"
  using validate_accept [OF assms(1)] assms(2-)
  by (simp add: execute_dml_def execute_dml_try_def get_db_connection_def log_def)

lemma export_to_csv_rejected:
  assumes "\<not> fst (validate_sql_query (tables e) sql tr)"
  shows "export_to_csv e sql file_path mr tr =
           (Inr (error_envelope e validation_failed), snd (validate_sql_query (tables e) sql tr))"
proof (cases "validate_sql_query (tables e) sql tr")
  case (Pair ok tr1)
  with assms show ?thesis
    by (simp add: export_to_csv_def export_to_csv_try_def error_envelope_def)
qed

lemma query_to_csv_rejected:
  assumes "\<not> fst (validate_sql_query (tables e) sql tr)"
  shows "query_to_csv e sql c tr =
           (Inr (error_envelope e validation_failed), snd (validate_sql_query (tables e) sql tr))"
proof (cases "validate_sql_query (tables e) sql tr")
  case (Pair ok tr1)
  with assms show ?thesis
    by (simp add: query_to_csv_def query_to_csv_try_def error_envelope_def)
qed

lemma query_to_csv_success:
  assumes "fst (validate_sql_query (tables e) sql tr)"
    and "is_select (tables e) sql"
    and "get_connection_string (tables e) (cfg e) = Inr cs" and "connect_error e = None"
    and "run e sql = ExecDone (Some columns) rows rc"
  shows "fst (query_to_csv e sql c tr) =
           Inr [(''success'', JBool True),
                (''csv_content'', JStr (csv_text e columns (fetchmany c rows))),
                (''rows'', JInt (int (length (fetchmany c rows)))),
                (''columns'', JInt (int (length columns))),
                (''truncated'', JBool (int (length (fetchmany c rows)) \<ge> c)),
                (''timestamp'', JStr (now e)),
                (''instructions'', JStr ''Claude Desktop can save this as a downloadable CSV file'')]"
  using validate_accept [OF assms(1)] assms(2-)
  by (simp add: query_to_csv_def query_to_csv_try_def get_db_connection_def log_def Let_def)






lemma search_lit_absent:
  "of_char a \<notin> set s \<Longrightarrow> \<not> search_from U (One (Lit a) # r) prev s"
  by (induction s arbitrary: prev) auto

lemma set_strip: "set (strip U s) \<subseteq> set s"
proof -
  have "set (strip U s) \<subseteq> set (rev (dropWhile (is_space U) s))"
    unfolding strip_def by (auto dest: set_dropWhileD)
  also have "\<dots> \<subseteq> set s"
    by (auto dest: set_dropWhileD)
  finally show ?thesis .
qed

text \<open>
  Whatever the tables, if upper-casing leaves none of the letters \<^verbatim>\<open>a\<close>..\<^verbatim>\<open>z\<close> (code
  points 97 to 122) in a text, as \<^verbatim>\<open>str.upper\<close> does, the two patterns written in lower
  case match no upper-cased text.
\<close>

lemma procedure_rules_never_match:
  assumes "\<And>t c. c \<in> set (upper U t) \<Longrightarrow> c < 97 \<or> 122 < c"
  shows "\<not> re_search U (lits ''xp_cmdshell'') (strip U (upper U sql))
       \<and> \<not> re_search U (lits ''sp_executesql'') (strip U (upper U sql))"
proof -
  have absent: "c \<notin> set (strip U (upper U sql))" if "97 \<le> c" and "c \<le> 122" for c
  proof
    assume "c \<in> set (strip U (upper U sql))"
    then have "c \<in> set (upper U sql)" using set_strip by blast
    from assms [OF this] that show False by simp
  qed
  have x: "of_char CHR ''x'' \<notin> set (strip U (upper U sql))"
    by (rule absent) simp_all
  have s: "of_char CHR ''s'' \<notin> set (strip U (upper U sql))"
    by (rule absent) simp_all
  show ?thesis
    using search_lit_absent [OF x] search_lit_absent [OF s]
    by (simp add: re_search_def lits_def)
qed

lemma ascii_upper_leaves_no_lower_case:
  "c \<in> set (upper ascii_unicode t) \<Longrightarrow> c < 97 \<or> 122 < c"
  by (auto simp add: ascii_unicode_def ascii_upper_def)

lemma sample_select_accepted: "fst (validate_sql_query (tables sample_env) sample_select [])"
  by code_simp

lemma sample_select_is_select: "is_select (tables sample_env) sample_select"
  by code_simp

lemma sample_connection: "get_connection_string (tables sample_env) (cfg sample_env) = Inr sample_connection_string"
  by code_simp

lemma sample_connects: "connect_error sample_env = None"
  by (simp add: sample_env_def)

lemma sample_run: "run sample_env sql = ExecDone (Some [''name'']) sample_rows (- 1)"
  by (simp add: sample_env_def)

lemma field_returned: "field (Inr v, tr) k = map_of v k"
  by (simp add: field_def)

lemma sample_max_rows: "MAX_ROWS (cfg sample_env) = 1000"
  by (simp add: sample_env_def sample_config_def)

lemma execute_dml_config_error:
  assumes "fst (validate_sql_query (tables e) sql tr)"
    and "is_allowed_command (tables e) sql"
    and "get_connection_string (tables e) (cfg e) = Inl (ValueError m)"
  shows "execute_dml e sql tr = (Inl (ValueError m), tr)"
  using validate_accept [OF assms(1)] assms(2-)
  by (simp add: execute_dml_def execute_dml_try_def get_db_connection_def)

lemma no_credentials_connection:
  "get_connection_string (tables no_credentials_env) (cfg no_credentials_env) =
     Inl (ValueError ''Either use Trusted_Connection or provide USERNAME and PASSWORD'')"
  by code_simp

lemma sample_dml_connection:
  "get_connection_string (tables sample_dml_env) (cfg sample_dml_env) = Inr sample_connection_string"
  by code_simp

lemma sample_dml_facts:
  "connect_error sample_dml_env = None" "run sample_dml_env sql = ExecDone None [] 1"
  "commit_error sample_dml_env = None"
  by (simp_all add: sample_dml_env_def sample_env_def)

lemma rejected_statement_never_connects:
  assumes "\<not> fst (validate_sql_query (tables e) sql tr)"
  shows "returns_error (query_sql e sql mr tr)
       \<and> db_calls (snd (query_sql e sql mr tr)) = db_calls tr
       \<and> returns_error (execute_dml e sql tr)
       \<and> db_calls (snd (execute_dml e sql tr)) = db_calls tr
       \<and> returns_error (export_to_csv e sql file_path mr tr)
       \<and> db_calls (snd (export_to_csv e sql file_path mr tr)) = db_calls tr
       \<and> returns_error (query_to_csv e sql c tr)
       \<and> db_calls (snd (query_to_csv e sql c tr)) = db_calls tr"
  by (simp add: query_sql_rejected [OF assms] execute_dml_rejected [OF assms]
        export_to_csv_rejected [OF assms] query_to_csv_rejected [OF assms]
        returns_error_def field_def error_envelope_def validate_db_calls)


section \<open>The sample tables stand for any tables that agree with them on ASCII\<close>

text \<open>
  On an ASCII statement, and with an ASCII \<^verbatim>\<open>TRUSTED_CONNECTION\<close>, the validator, the
  gates and the four operations do the same with any tables that agree with the sample
  tables on ASCII: what is evaluated on the sample worlds below holds in every such
  world.
\<close>

lemma ascii_unicode_agrees: "agrees_on_ascii ascii_unicode"
  by (simp add: agrees_on_ascii_def ascii_unicode_def)

lemma is_ascii_ascii_upper: "is_ascii t \<Longrightarrow> is_ascii (ascii_upper t)"
  by (auto simp add: is_ascii_def ascii_upper_def list_all_iff)

lemma is_ascii_dropWhile: "is_ascii t \<Longrightarrow> is_ascii (dropWhile P t)"
  by (auto simp add: is_ascii_def list_all_iff dest: set_dropWhileD)

lemma dropWhile_agree:
  assumes "agrees_on_ascii U" and "is_ascii t"
  shows "dropWhile (is_space U) t = dropWhile ascii_is_space t"
  using assms by (intro dropWhile_cong) (auto simp add: agrees_on_ascii_def is_ascii_def list_all_iff)

lemma strip_agree:
  assumes "agrees_on_ascii U" and "is_ascii t"
  shows "strip U t = strip ascii_unicode t"
proof -
  have a: "dropWhile (is_space U) t = dropWhile ascii_is_space t"
    by (rule dropWhile_agree [OF assms])
  have "is_ascii (rev (dropWhile ascii_is_space t))"
    using is_ascii_dropWhile [OF assms(2)] by (simp add: is_ascii_def)
  from dropWhile_agree [OF assms(1) this] a show ?thesis
    by (simp add: strip_def ascii_unicode_def)
qed

lemma is_ascii_strip: "is_ascii t \<Longrightarrow> is_ascii (strip U t)"
  using set_strip [of U t] by (auto simp add: is_ascii_def list_all_iff)

lemma cls_matches_agree:
  "agrees_on_ascii U \<Longrightarrow> x < 128 \<Longrightarrow> cls_matches U c x = cls_matches ascii_unicode c x"
  by (cases c) (simp_all add: agrees_on_ascii_def ascii_unicode_def)

lemma at_boundary_agree:
  "agrees_on_ascii U \<Longrightarrow> is_ascii s \<Longrightarrow> prev_ascii prev \<Longrightarrow>
   at_boundary U prev s = at_boundary ascii_unicode prev s"
  by (cases prev; cases s)
     (simp_all add: agrees_on_ascii_def ascii_unicode_def is_ascii_def prev_ascii_def)

lemma match_here_agree:
  "agrees_on_ascii U \<Longrightarrow> is_ascii s \<Longrightarrow> prev_ascii prev \<Longrightarrow>
   match_here U pat prev s = match_here ascii_unicode pat prev s"
proof (induction U pat prev s rule: match_here.induct)
  case (3 U c r prev x xs)
  then show ?case
    by (simp add: cls_matches_agree is_ascii_def prev_ascii_def)
next
  case (5 U c r prev x xs)
  then show ?case
    by (simp add: cls_matches_agree is_ascii_def prev_ascii_def)
next
  case (7 U c r prev x xs)
  then show ?case
    by (simp add: cls_matches_agree is_ascii_def prev_ascii_def)
next
  case (8 U r prev s)
  then show ?case
    by (simp add: at_boundary_agree)
qed simp_all

lemma search_from_agree:
  "agrees_on_ascii U \<Longrightarrow> is_ascii s \<Longrightarrow> prev_ascii prev \<Longrightarrow>
   search_from U pat prev s = search_from ascii_unicode pat prev s"
proof (induction s arbitrary: prev)
  case Nil
  then show ?case by (simp add: match_here_agree)
next
  case (Cons x xs)
  from Cons.prems have "is_ascii xs" and "prev_ascii (Some x)"
    by (simp_all add: is_ascii_def prev_ascii_def)
  with Cons show ?case by (simp add: match_here_agree)
qed

lemma validate_sql_query_agree:
  assumes "agrees_on_ascii U" and "is_ascii sql"
  shows "fst (validate_sql_query U sql tr) = fst (validate_sql_query ascii_unicode sql tr)"
proof -
  have up: "upper U sql = upper ascii_unicode sql"
    using assms by (simp add: agrees_on_ascii_def ascii_unicode_def)
  have asc: "is_ascii (upper ascii_unicode sql)"
    using is_ascii_ascii_upper [OF assms(2)] by (simp add: ascii_unicode_def)
  have st: "strip U (upper U sql) = strip ascii_unicode (upper ascii_unicode sql)"
    using strip_agree [OF assms(1) asc] up by simp
  have "re_search U p (strip ascii_unicode (upper ascii_unicode sql))
        = re_search ascii_unicode p (strip ascii_unicode (upper ascii_unicode sql))" for p
    unfolding re_search_def
    by (rule search_from_agree [OF assms(1) is_ascii_strip [OF asc]]) (simp add: prev_ascii_def)
  then show ?thesis
    by (simp add: validate_verdict st)
qed

lemma gate_agree:
  assumes "agrees_on_ascii U" and "is_ascii sql"
  shows "upper U (strip U sql) = upper ascii_unicode (strip ascii_unicode sql)"
proof -
  have "upper U (strip ascii_unicode sql) = upper ascii_unicode (strip ascii_unicode sql)"
    using assms(1) is_ascii_strip [OF assms(2), of ascii_unicode]
    by (simp add: agrees_on_ascii_def ascii_unicode_def)
  then show ?thesis
    by (simp add: strip_agree [OF assms])
qed


lemma check_patterns_agree:
  assumes "\<And>p. re_search U p s = re_search V p s"
  shows "check_patterns U ps s tr = check_patterns V ps s tr"
  by (induction ps) (simp_all add: assms)

lemma validate_sql_query_agree_full:
  assumes "agrees_on_ascii U" and "is_ascii sql"
  shows "validate_sql_query U sql tr = validate_sql_query ascii_unicode sql tr"
proof -
  have up: "upper U sql = upper ascii_unicode sql"
    using assms by (simp add: agrees_on_ascii_def ascii_unicode_def)
  have asc: "is_ascii (upper ascii_unicode sql)"
    using is_ascii_ascii_upper [OF assms(2)] by (simp add: ascii_unicode_def)
  have st: "strip U (upper U sql) = strip ascii_unicode (upper ascii_unicode sql)"
    using strip_agree [OF assms(1) asc] up by simp
  have "re_search U p (strip ascii_unicode (upper ascii_unicode sql))
        = re_search ascii_unicode p (strip ascii_unicode (upper ascii_unicode sql))" for p
    unfolding re_search_def
    by (rule search_from_agree [OF assms(1) is_ascii_strip [OF asc]]) (simp add: prev_ascii_def)
  then show ?thesis
    unfolding validate_sql_query_def st by (rule check_patterns_agree)
qed

lemma get_connection_string_agree:
  assumes "agrees_on_ascii U" and "is_ascii (TRUSTED_CONNECTION c)"
  shows "get_connection_string U c = get_connection_string ascii_unicode c"
  using assms by (simp add: get_connection_string_def agrees_on_ascii_def ascii_unicode_def)

lemma get_db_connection_agree:
  assumes "agrees_on_ascii U" and "is_ascii (TRUSTED_CONNECTION (cfg e))"
  shows "get_db_connection (e\<lparr>tables := U\<rparr>) body tr
       = get_db_connection (e\<lparr>tables := ascii_unicode\<rparr>) body tr"
  using get_connection_string_agree [OF assms]
  by (simp add: get_db_connection_def cong: sum.case_cong option.case_cong)

lemma error_envelope_tables: "error_envelope (e\<lparr>tables := U\<rparr>) m = error_envelope e m"
  by (simp add: error_envelope_def)

lemma format_query_result_tables:
  "format_query_result (e\<lparr>tables := U\<rparr>) c r m = format_query_result e c r m"
  by (simp add: format_query_result_def)

lemma except_tables:
  "except_pyodbc_Error (e\<lparr>tables := U\<rparr>) = except_pyodbc_Error e"
  "except_Exception (e\<lparr>tables := U\<rparr>) = except_Exception e"
  "except_IOError (e\<lparr>tables := U\<rparr>) = except_IOError e"
proof -
  show "except_IOError (e\<lparr>tables := U\<rparr>) = except_IOError e"
  proof
    fix r show "except_IOError (e\<lparr>tables := U\<rparr>) r = except_IOError e r"
      by (cases "(e, r)" rule: except_IOError.cases) (simp_all add: error_envelope_tables)
  qed
  show "except_pyodbc_Error (e\<lparr>tables := U\<rparr>) = except_pyodbc_Error e"
  proof
    fix r show "except_pyodbc_Error (e\<lparr>tables := U\<rparr>) r = except_pyodbc_Error e r"
      by (cases "(e, r)" rule: except_pyodbc_Error.cases) (simp_all add: error_envelope_tables)
  qed
  show "except_Exception (e\<lparr>tables := U\<rparr>) = except_Exception e"
  proof
    fix r show "except_Exception (e\<lparr>tables := U\<rparr>) r = except_Exception e r"
      by (cases "(e, r)" rule: except_Exception.cases) (simp_all add: error_envelope_tables)
  qed
qed

lemma query_sql_agree:
  assumes "agrees_on_ascii U" and "is_ascii sql" and "is_ascii (TRUSTED_CONNECTION (cfg e))"
  shows "query_sql (e\<lparr>tables := U\<rparr>) sql mr tr = query_sql (e\<lparr>tables := ascii_unicode\<rparr>) sql mr tr"
proof -
  have c: "get_db_connection (e\<lparr>tables := U\<rparr>) body
         = get_db_connection (e\<lparr>tables := ascii_unicode\<rparr>) body" for body :: "trace \<Rightarrow> envelope result"
    by (rule ext) (rule get_db_connection_agree [OF assms(1,3)])
  have "query_sql_try (e\<lparr>tables := U\<rparr>) sql mr tr
      = query_sql_try (e\<lparr>tables := ascii_unicode\<rparr>) sql mr tr"
    unfolding query_sql_try_def c
    by (simp add: validate_sql_query_agree_full [OF assms(1,2)] is_select_def is_allowed_command_def gate_agree [OF assms(1,2)]
          error_envelope_tables format_query_result_tables
        cong: prod.case_cong if_cong exec_result.case_cong option.case_cong)
  then show ?thesis
    by (simp add: query_sql_def except_tables)
qed


lemma execute_dml_agree:
  assumes "agrees_on_ascii U" and "is_ascii sql" and "is_ascii (TRUSTED_CONNECTION (cfg e))"
  shows "execute_dml (e\<lparr>tables := U\<rparr>) sql tr = execute_dml (e\<lparr>tables := ascii_unicode\<rparr>) sql tr"
proof -
  have c: "get_db_connection (e\<lparr>tables := U\<rparr>) body
         = get_db_connection (e\<lparr>tables := ascii_unicode\<rparr>) body" for body :: "trace \<Rightarrow> envelope result"
    by (rule ext) (rule get_db_connection_agree [OF assms(1,3)])
  have "execute_dml_try (e\<lparr>tables := U\<rparr>) sql tr
      = execute_dml_try (e\<lparr>tables := ascii_unicode\<rparr>) sql tr"
    unfolding execute_dml_try_def c
    by (simp add: validate_sql_query_agree_full [OF assms(1,2)] is_select_def is_allowed_command_def gate_agree [OF assms(1,2)]
          error_envelope_tables
        cong: prod.case_cong if_cong exec_result.case_cong option.case_cong)
  then show ?thesis
    by (simp add: execute_dml_def except_tables)
qed

lemma csv_text_tables: "csv_text (e\<lparr>tables := U\<rparr>) c r = csv_text e c r"
  by (simp add: csv_text_def)

lemma query_to_csv_agree:
  assumes "agrees_on_ascii U" and "is_ascii sql" and "is_ascii (TRUSTED_CONNECTION (cfg e))"
  shows "query_to_csv (e\<lparr>tables := U\<rparr>) sql n tr = query_to_csv (e\<lparr>tables := ascii_unicode\<rparr>) sql n tr"
proof -
  have c: "get_db_connection (e\<lparr>tables := U\<rparr>) body
         = get_db_connection (e\<lparr>tables := ascii_unicode\<rparr>) body" for body :: "trace \<Rightarrow> envelope result"
    by (rule ext) (rule get_db_connection_agree [OF assms(1,3)])
  have "query_to_csv_try (e\<lparr>tables := U\<rparr>) sql n tr
      = query_to_csv_try (e\<lparr>tables := ascii_unicode\<rparr>) sql n tr"
    unfolding query_to_csv_try_def c
    by (simp add: validate_sql_query_agree_full [OF assms(1,2)] is_select_def is_allowed_command_def gate_agree [OF assms(1,2)]
          error_envelope_tables csv_text_tables
        cong: prod.case_cong if_cong exec_result.case_cong option.case_cong)
  then show ?thesis
    by (simp add: query_to_csv_def except_tables)
qed

lemma export_to_csv_agree:
  assumes "agrees_on_ascii U" and "is_ascii sql" and "is_ascii (TRUSTED_CONNECTION (cfg e))"
  shows "export_to_csv (e\<lparr>tables := U\<rparr>) sql file_path mr tr
       = export_to_csv (e\<lparr>tables := ascii_unicode\<rparr>) sql file_path mr tr"
proof -
  have c: "get_db_connection (e\<lparr>tables := U\<rparr>) body
         = get_db_connection (e\<lparr>tables := ascii_unicode\<rparr>) body" for body :: "trace \<Rightarrow> envelope result"
    by (rule ext) (rule get_db_connection_agree [OF assms(1,3)])
  have w: "export_to_csv_with (e\<lparr>tables := U\<rparr>) sql file_path mr t
         = export_to_csv_with (e\<lparr>tables := ascii_unicode\<rparr>) sql file_path mr t" for t
    unfolding export_to_csv_with_def c
    by (simp add: error_envelope_tables csv_text_tables
        cong: exec_result.case_cong option.case_cong)
  have "export_to_csv_try (e\<lparr>tables := U\<rparr>) sql file_path mr tr
      = export_to_csv_try (e\<lparr>tables := ascii_unicode\<rparr>) sql file_path mr tr"
    unfolding export_to_csv_try_def
    by (simp add: validate_sql_query_agree_full [OF assms(1,2)] is_select_def is_allowed_command_def gate_agree [OF assms(1,2)]
          error_envelope_tables w
        cong: prod.case_cong if_cong option.case_cong)
  then show ?thesis
    by (simp add: export_to_csv_def except_tables)
qed

section \<open>The claims\<close>

text \<open>
  C1, as stated, at a cap of \<open>0\<close> and at a cap of \<open>-1\<close>, on three rows and the default cap
  1000. A cap of \<open>0\<close> returns all three rows and \<open>truncated = false\<close>, where the claim
  asks for \<open>min(3, 0) = 0\<close> rows and \<open>truncated = (3 > 0)\<close>; a cap of \<open>-1\<close> returns two
  rows, where the claim asks for \<open>min(3, -1)\<close>.
\<close>

theorem query_sql_cap_counterexample:
  "\<not> rows_capped (query_sql sample_env sample_select (Some 0) []) 0
   \<and> \<not> truncation_flag_ok (query_sql sample_env sample_select (Some 0) []) 0
   \<and> field (query_sql sample_env sample_select (Some 0) []) ''rows''
       = Some (JArr (map JArr sample_rows))
   \<and> field (query_sql sample_env sample_select (Some 0) []) ''truncated'' = Some (JBool False)
   \<and> \<not> rows_capped (query_sql sample_env sample_select (Some (- 1)) []) (- 1)"
proof -
  note run = query_sql_success [OF sample_select_accepted sample_select_is_select
               sample_connection sample_connects sample_run]
  show ?thesis
    by (simp add: run rows_capped_def truncation_flag_ok_def field_returned
          format_query_result_def slice_to_def sample_rows_def sample_max_rows)
qed

text \<open>
  C1, amended. For an accepted \<^verbatim>\<open>SELECT\<close> statement that \<^verbatim>\<open>query_sql\<close> runs to a
  result set, let \<open>c\<close> be the caller's \<^verbatim>\<open>max_rows\<close> when it is given and is not \<open>0\<close>, and
  \<^verbatim>\<open>Config.MAX_ROWS\<close> otherwise. Then \<open>row_count\<close> is the number of rows fetched, \<open>rows\<close> is
  the slice \<^verbatim>\<open>rows[:c]\<close>, \<open>truncated = (row_count > c)\<close>, and, when \<open>0 \<le> c\<close>,
  \<open>rows.length = min(row_count, c)\<close>.
\<close>

theorem query_sql_cap_accounting:
  assumes "fst (validate_sql_query (tables e) sql tr)"
    and "is_select (tables e) sql"
    and "get_connection_string (tables e) (cfg e) = Inr cs" and "connect_error e = None"
    and "run e sql = ExecDone (Some columns) rows rc"
    and "c = or_default max_rows (MAX_ROWS (cfg e))"
  shows "field (query_sql e sql max_rows tr) ''row_count'' = Some (JInt (int (length rows)))
       \<and> field (query_sql e sql max_rows tr) ''rows'' = Some (JArr (map JArr (slice_to rows c)))
       \<and> truncation_flag_ok (query_sql e sql max_rows tr) c
       \<and> (0 \<le> c \<longrightarrow> rows_capped (query_sql e sql max_rows tr) c)"
  using assms(6)
  by (auto simp add: query_sql_success [OF assms(1-5)] rows_capped_def truncation_flag_ok_def
      field_returned format_query_result_def slice_to_def Let_def)

text \<open>
  C1, amended, on the sample world with a cap of \<open>2\<close>: three rows fetched, two returned,
  \<open>truncated\<close> set.
\<close>

theorem query_sql_cap_accounting_witness:
  "fst (validate_sql_query (tables sample_env) sample_select [])
   \<and> is_select (tables sample_env) sample_select
   \<and> get_connection_string (tables sample_env) (cfg sample_env) = Inr sample_connection_string
   \<and> connect_error sample_env = None
   \<and> run sample_env sample_select = ExecDone (Some [''name'']) sample_rows (- 1)
   \<and> (2::int) = or_default (Some 2) (MAX_ROWS (cfg sample_env))
   \<and> (0::int) \<le> 2
   \<and> field (query_sql sample_env sample_select (Some 2) []) ''row_count''
       = Some (JInt (int (length sample_rows)))
   \<and> truncation_flag_ok (query_sql sample_env sample_select (Some 2) []) 2
   \<and> rows_capped (query_sql sample_env sample_select (Some 2) []) 2"
proof -
  have cap: "(2::int) = or_default (Some 2) (MAX_ROWS (cfg sample_env))"
    by (simp add: sample_max_rows)
  show ?thesis
    using query_sql_cap_accounting [OF sample_select_accepted sample_select_is_select
            sample_connection sample_connects sample_run cap]
          sample_select_accepted sample_select_is_select sample_connection sample_connects
          sample_run [of sample_select]
    by simp
qed

text \<open>
  C2. The claim has the validator reject every text that names a dangerous procedure.
  The two procedure patterns are written in lower case and searched in the upper-cased
  text, where no lower-case letter is left (\<open>procedure_rules_never_match\<close>: they match
  no text at all), so the validator accepts \<^verbatim>\<open>EXEC xp_cmdshell dir\<close> and
  \<^verbatim>\<open>EXEC sp_executesql @stmt\<close>.
\<close>

theorem validator_accepts_procedure_names:
  "fst (validate_sql_query ascii_unicode (ascii ''EXEC xp_cmdshell dir'') tr)
   \<and> fst (validate_sql_query ascii_unicode (ascii ''EXEC sp_executesql @stmt'') tr)"
  unfolding validate_verdict by code_simp

text \<open>
  C3. The claim has every failure of \<^verbatim>\<open>execute_dml\<close> end in an error envelope. With
  integrated authentication off and no credentials configured, building the connection
  string raises \<^verbatim>\<open>ValueError\<close>; \<^verbatim>\<open>execute_dml\<close> catches \<^verbatim>\<open>pyodbc.Error\<close> only, and the
  exception leaves the operation.
\<close>

theorem execute_dml_value_error_escapes:
  "execute_dml no_credentials_env (ascii ''DELETE FROM dbo.Temp WHERE id=5'') [] =
     (Inl (ValueError ''Either use Trusted_Connection or provide USERNAME and PASSWORD''), [])"
proof -
  have a: "fst (validate_sql_query (tables no_credentials_env) (ascii ''DELETE FROM dbo.Temp WHERE id=5'') [])"
    by code_simp
  have b: "is_allowed_command (tables no_credentials_env) (ascii ''DELETE FROM dbo.Temp WHERE id=5'')"
    by code_simp
  show ?thesis
    by (rule execute_dml_config_error [OF a b no_credentials_connection])
qed

text \<open>
  C4, as stated, on a result of exactly three rows with a cap of \<open>3\<close>: \<^verbatim>\<open>query_to_csv\<close>
  reports \<open>truncated = true\<close> although the row count does not exceed the cap.
\<close>

theorem query_to_csv_truncated_counterexample:
  "field (query_to_csv sample_env sample_select 3 []) ''truncated'' = Some (JBool True)
   \<and> \<not> (int (length sample_rows) > 3)"
  by (simp add: field_def query_to_csv_success [OF sample_select_accepted sample_select_is_select
        sample_connection sample_connects sample_run] fetchmany_def sample_rows_def)

text \<open>
  C4, amended. For an accepted \<^verbatim>\<open>SELECT\<close> statement that \<^verbatim>\<open>query_to_csv\<close> runs to a
  result set with a cap \<open>c \<ge> 0\<close>, \<open>truncated\<close> is true if and only if the result has at
  least \<open>c\<close> rows (the rows written reached the cap), and \<open>rows\<close> is the minimum of the
  row count and \<open>c\<close>; a result of exactly \<open>c\<close> rows is reported as truncated.
\<close>

theorem query_to_csv_truncated_at_cap:
  assumes "fst (validate_sql_query (tables e) sql tr)"
    and "is_select (tables e) sql"
    and "get_connection_string (tables e) (cfg e) = Inr cs" and "connect_error e = None"
    and "run e sql = ExecDone (Some columns) rows rc"
    and "0 \<le> c"
  shows "field (query_to_csv e sql c tr) ''truncated'' = Some (JBool (int (length rows) \<ge> c))
       \<and> field (query_to_csv e sql c tr) ''rows'' = Some (JInt (min (int (length rows)) c))"
  using assms(6)
  by (auto simp add: field_def query_to_csv_success [OF assms(1-5)] fetchmany_def)

text \<open>
  C4, amended, on the sample world with a cap of \<open>3\<close>.
\<close>

theorem query_to_csv_truncated_at_cap_witness:
  "fst (validate_sql_query (tables sample_env) sample_select [])
   \<and> is_select (tables sample_env) sample_select
   \<and> get_connection_string (tables sample_env) (cfg sample_env) = Inr sample_connection_string
   \<and> connect_error sample_env = None
   \<and> run sample_env sample_select = ExecDone (Some [''name'']) sample_rows (- 1)
   \<and> (0::int) \<le> 3
   \<and> field (query_to_csv sample_env sample_select 3 []) ''truncated''
       = Some (JBool (int (length sample_rows) \<ge> 3))
   \<and> field (query_to_csv sample_env sample_select 3 []) ''rows''
       = Some (JInt (min (int (length sample_rows)) 3))"
proof -
  have cap: "(0::int) \<le> 3" by simp
  show ?thesis
    using query_to_csv_truncated_at_cap [OF sample_select_accepted sample_select_is_select
            sample_connection sample_connects sample_run cap]
          sample_select_accepted sample_select_is_select sample_connection sample_connects
          sample_run [of sample_select]
    by simp
qed

text \<open>
  C5, as stated, at the text \<^verbatim>\<open>SELECTX 1\<close>: its first keyword token is \<^verbatim>\<open>SELECTX\<close>, not
  \<^verbatim>\<open>SELECT\<close>, yet \<^verbatim>\<open>query_sql\<close> returns no error and the statement is executed.
\<close>

theorem query_sql_select_prefix_counterexample:
  "first_keyword (tables sample_env) (ascii ''SELECTX 1'') \<noteq> ascii ''SELECT''
   \<and> \<not> returns_error (query_sql sample_env (ascii ''SELECTX 1'') None [])
   \<and> Executed (ascii ''SELECTX 1'') \<in> set (snd (query_sql sample_env (ascii ''SELECTX 1'') None []))"
proof -
  have a: "fst (validate_sql_query (tables sample_env) (ascii ''SELECTX 1'') [])" by code_simp
  have b: "is_select (tables sample_env) (ascii ''SELECTX 1'')" by code_simp
  have c: "first_keyword (tables sample_env) (ascii ''SELECTX 1'') \<noteq> ascii ''SELECT''" by code_simp
  show ?thesis
    using c
    by (simp add: query_sql_success [OF a b sample_connection sample_connects sample_run]
          returns_error_def field_def format_query_result_def Let_def)
qed

text \<open>
  C5, amended. \<^verbatim>\<open>query_sql\<close> returns an error envelope, and makes no call on the
  database, for every input whose text, trimmed by \<^verbatim>\<open>str.strip\<close> and upper-cased by
  \<^verbatim>\<open>str.upper\<close>, does not begin with the six characters \<^verbatim>\<open>SELECT\<close>; this holds
  whatever the Unicode tables of the interpreter are.
\<close>

theorem query_sql_requires_select_prefix:
  assumes "\<not> is_select (tables e) sql"
  shows "returns_error (query_sql e sql mr tr)
       \<and> db_calls (snd (query_sql e sql mr tr)) = db_calls tr"
proof (cases "fst (validate_sql_query (tables e) sql tr)")
  case True
  then show ?thesis
    by (simp add: query_sql_not_select [OF True assms] returns_error_def field_def
          error_envelope_def)
next
  case False
  then show ?thesis
    by (simp add: query_sql_rejected [OF False] returns_error_def field_def
          error_envelope_def validate_db_calls)
qed

text \<open>
  C5, amended, at the text \<^verbatim>\<open>INSERT INTO t VALUES (1)\<close>.
\<close>

theorem query_sql_requires_select_prefix_witness:
  "\<not> is_select (tables sample_env) (ascii ''INSERT INTO t VALUES (1)'')
   \<and> returns_error (query_sql sample_env (ascii ''INSERT INTO t VALUES (1)'') None [])
   \<and> db_calls (snd (query_sql sample_env (ascii ''INSERT INTO t VALUES (1)'') None [])) = db_calls []"
proof -
  have a: "\<not> is_select (tables sample_env) (ascii ''INSERT INTO t VALUES (1)'')"
    by code_simp
  show ?thesis
    using query_sql_requires_select_prefix [OF a] a by simp
qed

text \<open>
  C6, as stated, at the text \<^verbatim>\<open>DELETEX FROM t\<close>: its first keyword is none of
  \<^verbatim>\<open>INSERT\<close>, \<^verbatim>\<open>UPDATE\<close>, \<^verbatim>\<open>DELETE\<close>, yet \<^verbatim>\<open>execute_dml\<close> accepts it, executes it
  and commits.
\<close>

theorem execute_dml_verb_prefix_counterexample:
  "first_keyword (tables sample_dml_env) (ascii ''DELETEX FROM t'') \<notin> set (map ascii allowed_commands)
   \<and> field (execute_dml sample_dml_env (ascii ''DELETEX FROM t'') []) ''success'' = Some (JBool True)
   \<and> Committed \<in> set (snd (execute_dml sample_dml_env (ascii ''DELETEX FROM t'') []))"
proof -
  have a: "fst (validate_sql_query (tables sample_dml_env) (ascii ''DELETEX FROM t'') [])" by code_simp
  have b: "is_allowed_command (tables sample_dml_env) (ascii ''DELETEX FROM t'')" by code_simp
  have c: "first_keyword (tables sample_dml_env) (ascii ''DELETEX FROM t'') \<notin> set (map ascii allowed_commands)" by code_simp
  show ?thesis
    using c
    by (simp add: execute_dml_success [OF a b sample_dml_connection sample_dml_facts] field_def)
qed

text \<open>
  C6, amended. \<^verbatim>\<open>execute_dml\<close> returns an error envelope, and makes no call on the
  database, for every input whose text, trimmed by \<^verbatim>\<open>str.strip\<close> and upper-cased by
  \<^verbatim>\<open>str.upper\<close>, begins with none of \<^verbatim>\<open>INSERT\<close>, \<^verbatim>\<open>UPDATE\<close>, \<^verbatim>\<open>DELETE\<close>,
  whatever the Unicode tables of the interpreter are. For an accepted statement that the database
  executes and commits, the envelope is \<open>success = true\<close>, \<open>rows_affected\<close> equal to the
  count the driver reports, and the timestamp; it has no \<open>rows\<close>, \<open>columns\<close> or \<open>error\<close>
  field; and the calls on the database are connect, execute, commit, close.
\<close>

theorem execute_dml_contract:
  "(\<not> is_allowed_command (tables e) sql \<longrightarrow>
      returns_error (execute_dml e sql tr)
      \<and> db_calls (snd (execute_dml e sql tr)) = db_calls tr)
   \<and> (fst (validate_sql_query (tables e) sql tr)
      \<and> is_allowed_command (tables e) sql
      \<and> get_connection_string (tables e) (cfg e) = Inr cs \<and> connect_error e = None
      \<and> run e sql = ExecDone description rows n \<and> commit_error e = None \<longrightarrow>
        fst (execute_dml e sql tr) =
          Inr [(''success'', JBool True), (''rows_affected'', JInt n),
               (''timestamp'', JStr (now e))]
        \<and> field (execute_dml e sql tr) ''rows'' = None
        \<and> field (execute_dml e sql tr) ''columns'' = None
        \<and> field (execute_dml e sql tr) ''error'' = None
        \<and> db_calls (snd (execute_dml e sql tr)) =
            db_calls tr @ [Connected cs, Executed sql, Committed, Closed])"
proof (intro conjI impI)
  assume verb: "\<not> is_allowed_command (tables e) sql"
  show "returns_error (execute_dml e sql tr)"
  proof (cases "fst (validate_sql_query (tables e) sql tr)")
    case True
    then show ?thesis
      by (simp add: execute_dml_not_allowed [OF True verb] returns_error_def field_def
            error_envelope_def)
  next
    case False
    then show ?thesis
      by (simp add: execute_dml_rejected [OF False] returns_error_def field_def
            error_envelope_def)
  qed
  show "db_calls (snd (execute_dml e sql tr)) = db_calls tr"
  proof (cases "fst (validate_sql_query (tables e) sql tr)")
    case True
    then show ?thesis
      by (simp add: execute_dml_not_allowed [OF True verb])
  next
    case False
    then show ?thesis
      by (simp add: execute_dml_rejected [OF False] validate_db_calls)
  qed
next
  assume ok: "fst (validate_sql_query (tables e) sql tr)
      \<and> is_allowed_command (tables e) sql
      \<and> get_connection_string (tables e) (cfg e) = Inr cs \<and> connect_error e = None
      \<and> run e sql = ExecDone description rows n \<and> commit_error e = None"
  then have run: "execute_dml e sql tr =
           (Inr [(''success'', JBool True), (''rows_affected'', JInt n),
                 (''timestamp'', JStr (now e))],
            tr @ [Connected cs, Logged INFO ''Database connection established'', Executed sql,
                  Committed,
                  Logged INFO (''DML executed successfully. '' @ str_int n @ '' rows affected''),
                  Closed, Logged INFO ''Database connection closed''])"
    by (intro execute_dml_success) simp_all
  show "fst (execute_dml e sql tr) =
          Inr [(''success'', JBool True), (''rows_affected'', JInt n),
               (''timestamp'', JStr (now e))]"
    by (simp add: run)
  show "field (execute_dml e sql tr) ''rows'' = None"
    by (simp add: run field_def)
  show "field (execute_dml e sql tr) ''columns'' = None"
    by (simp add: run field_def)
  show "field (execute_dml e sql tr) ''error'' = None"
    by (simp add: run field_def)
  show "db_calls (snd (execute_dml e sql tr)) =
          db_calls tr @ [Connected cs, Executed sql, Committed, Closed]"
    by (simp add: run db_calls_def)
qed

text \<open>
  C6, amended, on the sample world: \<^verbatim>\<open>SELECT 1\<close> is refused, and
  \<^verbatim>\<open>DELETE FROM dbo.Temp WHERE id=5\<close> reports one affected row and commits.
\<close>

theorem execute_dml_contract_witness:
  "(\<not> is_allowed_command (tables sample_dml_env) (ascii ''SELECT 1'')
      \<and> returns_error (execute_dml sample_dml_env (ascii ''SELECT 1'') [])
      \<and> db_calls (snd (execute_dml sample_dml_env (ascii ''SELECT 1'') [])) = db_calls [])
   \<and> (fst (validate_sql_query (tables sample_dml_env) (ascii ''DELETE FROM dbo.Temp WHERE id=5'') [])
      \<and> is_allowed_command (tables sample_dml_env) (ascii ''DELETE FROM dbo.Temp WHERE id=5'')
      \<and> get_connection_string (tables sample_dml_env) (cfg sample_dml_env) = Inr sample_connection_string
      \<and> connect_error sample_dml_env = None
      \<and> run sample_dml_env (ascii ''DELETE FROM dbo.Temp WHERE id=5'') = ExecDone None [] 1
      \<and> commit_error sample_dml_env = None
      \<and> field (execute_dml sample_dml_env (ascii ''DELETE FROM dbo.Temp WHERE id=5'') []) ''rows_affected''
          = Some (JInt 1)
      \<and> field (execute_dml sample_dml_env (ascii ''DELETE FROM dbo.Temp WHERE id=5'') []) ''rows'' = None
      \<and> field (execute_dml sample_dml_env (ascii ''DELETE FROM dbo.Temp WHERE id=5'') []) ''columns'' = None
      \<and> db_calls (snd (execute_dml sample_dml_env (ascii ''DELETE FROM dbo.Temp WHERE id=5'') [])) =
            db_calls [] @ [Connected sample_connection_string,
                           Executed (ascii ''DELETE FROM dbo.Temp WHERE id=5''), Committed, Closed])"
proof -
  have a: "\<not> is_allowed_command (tables sample_dml_env) (ascii ''SELECT 1'')"
    by code_simp
  have b: "fst (validate_sql_query (tables sample_dml_env) (ascii ''DELETE FROM dbo.Temp WHERE id=5'') [])"
    by code_simp
  have c: "is_allowed_command (tables sample_dml_env) (ascii ''DELETE FROM dbo.Temp WHERE id=5'')"
    by code_simp
  note d = sample_dml_connection sample_dml_facts(1)
    sample_dml_facts(2) [of "ascii ''DELETE FROM dbo.Temp WHERE id=5''"] sample_dml_facts(3)
  show ?thesis
    using execute_dml_contract [where sql = "ascii ''SELECT 1''" and e = sample_dml_env and tr = "[]"]
      execute_dml_contract [where sql = "ascii ''DELETE FROM dbo.Temp WHERE id=5''"
        and e = sample_dml_env and tr = "[]" and cs = sample_connection_string
        and description = None and rows = "[]" and n = 1]
      a b c d
    by (simp add: field_def)
qed

text \<open>
  C7. The claim has no connection acquired for a text that matches a deny-list rule.
  Every text the validator rejects is refused before a connection is acquired, in all
  four operations (\<open>rejected_statement_never_connects\<close>); but the validator accepts a
  text that names a dangerous procedure, and \<^verbatim>\<open>query_sql\<close> connects and executes it.
\<close>

theorem query_sql_connects_for_procedure_name:
  "\<not> returns_error (query_sql sample_env (ascii ''SELECT 1; EXEC xp_cmdshell dir'') None [])
   \<and> db_calls (snd (query_sql sample_env (ascii ''SELECT 1; EXEC xp_cmdshell dir'') None [])) =
       [Connected sample_connection_string, Executed (ascii ''SELECT 1; EXEC xp_cmdshell dir''), Closed]"
proof -
  have a: "fst (validate_sql_query (tables sample_env) (ascii ''SELECT 1; EXEC xp_cmdshell dir'') [])" by code_simp
  have b: "is_select (tables sample_env) (ascii ''SELECT 1; EXEC xp_cmdshell dir'')" by code_simp
  show ?thesis
    by (simp add: query_sql_success [OF a b sample_connection sample_connects sample_run]
          returns_error_def field_def format_query_result_def Let_def db_calls_def)
qed

text \<open>
  C8. The verdict of the validator depends on the statement text alone, not on the
  effects performed before: it is the same on any two traces, and the same when the
  text is validated again after a first validation.
\<close>

theorem validate_sql_query_pure:
  "fst (validate_sql_query U sql tr1) = fst (validate_sql_query U sql tr2)
   \<and> fst (validate_sql_query U sql (snd (validate_sql_query U sql tr1)))
       = fst (validate_sql_query U sql tr1)"
  by (simp add: validate_verdict)





end
